theory Spec2Isabelle
  imports Complex_Main "HOL-Library.Monad_Syntax"
begin

section \<open>JSON values and the schema combinators of the event validator\<close>

text \<open>
  The inbound payloads are values produced by a JSON parser. An object is the list of its
  own properties; a property is read with \<open>map_of\<close>, and a key that does not occur is
  JavaScript's \<open>undefined\<close>, written \<open>None\<close>. No property of the development depends
  on the value of a number, so numbers are kept as rationals (every finite double is one).
\<close>

datatype json =
    JNull
  | JBool bool
  | JNum rat
  | JStr string
  | JArr "json list"
  | JObj "(string \<times> json) list"

text \<open>
  The schemas of \<open>types.ts\<close> are built from the validators of the zod library. A
  validator reads a possibly undefined input and either produces the parsed output or
  reports an issue (\<open>None\<close>). The combinators below are the ones the schemas use:
  \<open>z.string()\<close>, \<open>z.number()\<close>, \<open>z.boolean()\<close>, \<open>z.literal(s)\<close>, \<open>.optional()\<close>,
  \<open>.nullable()\<close>, \<open>z.array(s)\<close>, \<open>z.object(shape)\<close> (which accepts objects only,
  reads the keys of its shape and drops every other key) and \<open>z.union(options)\<close>
  (the result of the first option that accepts the input).
\<close>

type_synonym 'a schema = "json option \<Rightarrow> 'a option"

definition z_string :: "string schema" where
  "z_string v = (case v of Some (JStr s) \<Rightarrow> Some s | _ \<Rightarrow> None)"

definition z_number :: "rat schema" where
  "z_number v = (case v of Some (JNum n) \<Rightarrow> Some n | _ \<Rightarrow> None)"

definition z_boolean :: "bool schema" where
  "z_boolean v = (case v of Some (JBool b) \<Rightarrow> Some b | _ \<Rightarrow> None)"

definition z_literal :: "string \<Rightarrow> string schema" where
  "z_literal l v = (if v = Some (JStr l) then Some l else None)"

definition z_optional :: "'a schema \<Rightarrow> 'a option schema" where
  "z_optional s v = (case v of None \<Rightarrow> Some None | Some _ \<Rightarrow> map_option Some (s v))"

definition z_nullable :: "'a schema \<Rightarrow> 'a option schema" where
  "z_nullable s v = (case v of Some JNull \<Rightarrow> Some None | _ \<Rightarrow> map_option Some (s v))"

definition z_array :: "'a schema \<Rightarrow> 'a list schema" where
  "z_array s v =
     (case v of Some (JArr xs) \<Rightarrow> those (map (\<lambda>x. s (Some x)) xs) | _ \<Rightarrow> None)"

definition z_object :: "((string \<Rightarrow> json option) \<Rightarrow> 'a option) \<Rightarrow> 'a schema" where
  "z_object shape v = (case v of Some (JObj fs) \<Rightarrow> shape (map_of fs) | _ \<Rightarrow> None)"

fun z_union :: "'a schema list \<Rightarrow> 'a schema" where
  "z_union [] v = None"
| "z_union (s # ss) v = (case s v of Some r \<Rightarrow> Some r | None \<Rightarrow> z_union ss v)"

definition z_map :: "('a \<Rightarrow> 'b) \<Rightarrow> 'a schema \<Rightarrow> 'b schema" where
  "z_map f s v = map_option f (s v)"


section \<open>Slack events and the event wrapper\<close>

text \<open>
  The three event schemas share field names; the records prefix them with the event kind
  (\<open>am_\<close>, \<open>msg_\<close>, \<open>ra_\<close>). The \<open>type\<close> tag of an event is fixed by its schema's
  literal, so it is the constructor of \<open>SlackEvent\<close> and is read back by \<open>event_type\<close>.
\<close>

record AppMentionEvent =
  am_user :: string
  am_text :: string
  am_ts :: string
  am_channel :: string
  am_event_ts :: string
  am_thread_ts :: "string option"

record MessageEvent =
  msg_subtype :: "string option"
  msg_user :: "string option"
  msg_text :: string
  msg_ts :: string
  msg_channel :: string
  msg_event_ts :: string
  msg_thread_ts :: "string option"
  msg_bot_id :: "string option"

record ReactionItem =
  item_type :: string
  item_channel :: string
  item_ts :: string

record ReactionAddedEvent =
  ra_user :: string
  ra_reaction :: string
  ra_item :: ReactionItem
  ra_event_ts :: string

datatype SlackEvent =
    AppMention AppMentionEvent
  | Message MessageEvent
  | ReactionAdded ReactionAddedEvent

fun event_type :: "SlackEvent \<Rightarrow> string" where
  "event_type (AppMention _) = ''app_mention''"
| "event_type (Message _) = ''message''"
| "event_type (ReactionAdded _) = ''reaction_added''"

record Authorization =
  auth_enterprise_id :: "string option option"
  auth_team_id :: string
  auth_user_id :: string
  auth_is_bot :: bool
  auth_is_enterprise_install :: "bool option"

record SlackEventWrapper =
  token :: string
  team_id :: string
  api_app_id :: string
  event :: SlackEvent
  wrapper_type :: string
  event_id :: string
  event_time :: rat
  authorizations :: "Authorization list option"

definition AppMentionEventSchema :: "AppMentionEvent schema" where
  "AppMentionEventSchema = z_object (\<lambda>get. do {
     _ \<leftarrow> z_literal ''app_mention'' (get ''type'');
     user \<leftarrow> z_string (get ''user'');
     text \<leftarrow> z_string (get ''text'');
     ts \<leftarrow> z_string (get ''ts'');
     channel \<leftarrow> z_string (get ''channel'');
     event_ts \<leftarrow> z_string (get ''event_ts'');
     thread_ts \<leftarrow> z_optional z_string (get ''thread_ts'');
     Some \<lparr>am_user = user, am_text = text, am_ts = ts, am_channel = channel,
            am_event_ts = event_ts, am_thread_ts = thread_ts\<rparr>
   })"

definition MessageEventSchema :: "MessageEvent schema" where
  "MessageEventSchema = z_object (\<lambda>get. do {
     _ \<leftarrow> z_literal ''message'' (get ''type'');
     subtype \<leftarrow> z_optional z_string (get ''subtype'');
     user \<leftarrow> z_optional z_string (get ''user'');
     text \<leftarrow> z_string (get ''text'');
     ts \<leftarrow> z_string (get ''ts'');
     channel \<leftarrow> z_string (get ''channel'');
     event_ts \<leftarrow> z_string (get ''event_ts'');
     thread_ts \<leftarrow> z_optional z_string (get ''thread_ts'');
     bot_id \<leftarrow> z_optional z_string (get ''bot_id'');
     Some \<lparr>msg_subtype = subtype, msg_user = user, msg_text = text, msg_ts = ts,
            msg_channel = channel, msg_event_ts = event_ts, msg_thread_ts = thread_ts,
            msg_bot_id = bot_id\<rparr>
   })"

definition ReactionItemSchema :: "ReactionItem schema" where
  "ReactionItemSchema = z_object (\<lambda>get. do {
     ty \<leftarrow> z_string (get ''type'');
     channel \<leftarrow> z_string (get ''channel'');
     ts \<leftarrow> z_string (get ''ts'');
     Some \<lparr>item_type = ty, item_channel = channel, item_ts = ts\<rparr>
   })"

definition ReactionAddedEventSchema :: "ReactionAddedEvent schema" where
  "ReactionAddedEventSchema = z_object (\<lambda>get. do {
     _ \<leftarrow> z_literal ''reaction_added'' (get ''type'');
     user \<leftarrow> z_string (get ''user'');
     reaction \<leftarrow> z_string (get ''reaction'');
     item \<leftarrow> ReactionItemSchema (get ''item'');
     event_ts \<leftarrow> z_string (get ''event_ts'');
     Some \<lparr>ra_user = user, ra_reaction = reaction, ra_item = item, ra_event_ts = event_ts\<rparr>
   })"

definition SlackEventSchema :: "SlackEvent schema" where
  "SlackEventSchema = z_union
     [z_map AppMention AppMentionEventSchema,
      z_map Message MessageEventSchema,
      z_map ReactionAdded ReactionAddedEventSchema]"

definition AuthorizationSchema :: "Authorization schema" where
  "AuthorizationSchema = z_object (\<lambda>get. do {
     enterprise_id \<leftarrow> z_optional (z_nullable z_string) (get ''enterprise_id'');
     team \<leftarrow> z_string (get ''team_id'');
     user \<leftarrow> z_string (get ''user_id'');
     is_bot \<leftarrow> z_boolean (get ''is_bot'');
     is_enterprise_install \<leftarrow> z_optional z_boolean (get ''is_enterprise_install'');
     Some \<lparr>auth_enterprise_id = enterprise_id, auth_team_id = team, auth_user_id = user,
            auth_is_bot = is_bot, auth_is_enterprise_install = is_enterprise_install\<rparr>
   })"

definition SlackEventWrapperSchema :: "SlackEventWrapper schema" where
  "SlackEventWrapperSchema = z_object (\<lambda>get. do {
     tok \<leftarrow> z_string (get ''token'');
     team \<leftarrow> z_string (get ''team_id'');
     app \<leftarrow> z_string (get ''api_app_id'');
     ev \<leftarrow> SlackEventSchema (get ''event'');
     ty \<leftarrow> z_literal ''event_callback'' (get ''type'');
     eid \<leftarrow> z_string (get ''event_id'');
     etime \<leftarrow> z_number (get ''event_time'');
     auths \<leftarrow> z_optional (z_array AuthorizationSchema) (get ''authorizations'');
     Some \<lparr>token = tok, team_id = team, api_app_id = app, event = ev, wrapper_type = ty,
            event_id = eid, event_time = etime, authorizations = auths\<rparr>
   })"

text \<open>
  \<open>Schema.parse\<close> throws a \<open>ZodError\<close> when the validator reports an issue;
  \<open>parseSlackEventWrapper\<close> lets it propagate. The other errors are the ones thrown
  further down: by \<open>crypto.timingSafeEqual\<close> on buffers of different lengths, by
  destructuring \<open>null\<close>, and by the database on a dangling \<open>workspace_id\<close>.
\<close>

datatype error = ZodError | RangeError | TypeError | ForeignKeyViolation

definition parseSlackEventWrapper :: "json \<Rightarrow> error + SlackEventWrapper" where
  "parseSlackEventWrapper body =
     (case SlackEventWrapperSchema (Some body) of None \<Rightarrow> Inl ZodError | Some w \<Rightarrow> Inr w)"

definition extractEvent :: "SlackEventWrapper \<Rightarrow> SlackEvent" where
  "extractEvent wrapper = event wrapper"

definition isAppMentionEvent :: "SlackEvent \<Rightarrow> bool" where
  "isAppMentionEvent e = (event_type e = ''app_mention'')"

definition isMessageEvent :: "SlackEvent \<Rightarrow> bool" where
  "isMessageEvent e = (event_type e = ''message'')"

definition isReactionAddedEvent :: "SlackEvent \<Rightarrow> bool" where
  "isReactionAddedEvent e = (event_type e = ''reaction_added'')"

definition isThreadMessage :: "MessageEvent \<Rightarrow> bool" where
  "isThreadMessage e = (msg_thread_ts e \<noteq> None \<and> msg_thread_ts e \<noteq> Some (msg_ts e))"

definition isBotMessage :: "MessageEvent \<Rightarrow> bool" where
  "isBotMessage e = (msg_bot_id e \<noteq> None)"

definition isUserMessage :: "MessageEvent \<Rightarrow> bool" where
  "isUserMessage e = (\<not> isBotMessage e)"

section \<open>The signature verifier\<close>

text \<open>
  Header values reach the handler as strings of Latin-1 characters, which is what
  \<open>char\<close> is. \<open>parseInt(s, 10)\<close> skips leading white space, reads an optional sign
  and the longest run of decimal digits, and yields \<open>NaN\<close> (here \<open>None\<close>) when that
  run is empty. The seconds of the clock stay far below \<open>2 ^ 53\<close>, so comparing the
  distance to the exact integer with 300 gives the answer the double arithmetic gives.
\<close>

definition isStrWhiteSpaceChar :: "char \<Rightarrow> bool" where
  "isStrWhiteSpaceChar c = ((of_char c :: nat) \<in> {9, 10, 11, 12, 13, 32, 160})"

definition isDigit :: "char \<Rightarrow> bool" where
  "isDigit c = (48 \<le> (of_char c :: nat) \<and> (of_char c :: nat) \<le> 57)"

definition digitsValue :: "string \<Rightarrow> nat" where
  "digitsValue ds = foldl (\<lambda>acc c. 10 * acc + (of_char c - 48)) 0 ds"

fun readSign :: "string \<Rightarrow> int \<times> string" where
  "readSign [] = (1, [])"
| "readSign (c # cs) =
     (if c = CHR ''-'' then (- 1, cs) else if c = CHR ''+'' then (1, cs) else (1, c # cs))"

definition parseInt :: "string \<Rightarrow> int option" where
  "parseInt s =
     (case readSign (dropWhile isStrWhiteSpaceChar s) of
        (sign, rest) \<Rightarrow>
          (let Z = takeWhile isDigit rest
           in if Z = [] then None else Some (sign * int (digitsValue Z))))"

text \<open>
  \<open>Math.abs(time - requestTime) > 300\<close>: every comparison with \<open>NaN\<close> is false.
\<close>

definition timestampTooFar :: "int \<Rightarrow> int option \<Rightarrow> bool" where
  "timestampTooFar time requestTime =
     (case requestTime of None \<Rightarrow> False | Some r \<Rightarrow> \<bar>time - r\<bar> > 300)"

text \<open>
  \<open>Buffer.from(s)\<close> is the UTF-8 encoding of the string, a list of bytes: a character
  below 128 is one byte, any other Latin-1 character two. \<open>crypto.timingSafeEqual\<close>
  throws a \<open>RangeError\<close> when the two buffers differ in length and compares them
  otherwise.
\<close>

definition utf8_of_char :: "char \<Rightarrow> nat list" where
  "utf8_of_char c =
     (let n = of_char c :: nat
      in if n < 128 then [n] else [192 + n div 64, 128 + n mod 64])"

definition Buffer_from :: "string \<Rightarrow> nat list" where
  "Buffer_from s = concat (map utf8_of_char s)"

definition timingSafeEqual :: "nat list \<Rightarrow> nat list \<Rightarrow> error + bool" where
  "timingSafeEqual a b = (if length a \<noteq> length b then Inl RangeError else Inr (a = b))"

text \<open>
  What the middleware reads from its surroundings: the configured signing secret, the
  clock (\<open>Date.now()\<close>, in milliseconds), the keyed hash of the crypto library
  (\<open>createHmac('sha256', key).update(msg).digest('hex')\<close>) and \<open>JSON.stringify\<close>.
  The last two are library functions; the verifier is modelled for any such functions.
\<close>

record Runtime =
  signingSecret :: string
  now_ms :: int
  hmac_sha256_hex :: "string \<Rightarrow> string \<Rightarrow> string"
  JSON_stringify :: "json \<Rightarrow> string"

record Request =
  req_headers :: "string \<Rightarrow> string option"
  req_body :: json

datatype Body = Text string | Json json | NoBody

record Response =
  res_status :: nat
  res_body :: Body

text \<open>The middleware either sends a response or calls \<open>next()\<close>.\<close>

datatype Outcome = Responded Response | Next

definition mySignature :: "Runtime \<Rightarrow> string \<Rightarrow> json \<Rightarrow> string" where
  "mySignature rt timestamp b =
     (let body = JSON_stringify rt b;
          sigBasestring = ''v0:'' @ timestamp @ '':'' @ body
      in ''v0='' @ hmac_sha256_hex rt (signingSecret rt) sigBasestring)"

definition compareSignatures :: "string \<Rightarrow> string \<Rightarrow> Outcome" where
  "compareSignatures signature mine =
     (case timingSafeEqual (Buffer_from signature) (Buffer_from mine) of
        Inr True \<Rightarrow> Next
      | Inr False \<Rightarrow> Responded \<lparr>res_status = 401, res_body = Text ''Invalid signature''\<rparr>
      | Inl _ \<Rightarrow> Responded \<lparr>res_status = 401, res_body = Text ''Invalid signature''\<rparr>)"

definition missingHeaders :: Outcome where
  "missingHeaders =
     Responded \<lparr>res_status = 400, res_body = Text ''Missing Slack signature headers''\<rparr>"

definition slackVerify :: "Runtime \<Rightarrow> Request \<Rightarrow> Outcome" where
  "slackVerify rt req =
     (case req_headers req ''x-slack-signature'' of
        None \<Rightarrow> missingHeaders
      | Some signature \<Rightarrow>
          (case req_headers req ''x-slack-request-timestamp'' of
             None \<Rightarrow> missingHeaders
           | Some timestamp \<Rightarrow>
               if signature = [] \<or> timestamp = [] then missingHeaders
               else
                 (let time = now_ms rt div 1000;
                      requestTime = parseInt timestamp
                  in if timestampTooFar time requestTime
                     then Responded \<lparr>res_status = 400,
                                      res_body = Text ''Request timestamp is too old''\<rparr>
                     else compareSignatures signature
                            (mySignature rt timestamp (req_body req)))))"

text \<open>A single-bit mutation of a string flips bit \<open>k\<close> of its character \<open>i\<close>.\<close>

fun flip_char :: "nat \<Rightarrow> char \<Rightarrow> char" where
  "flip_char k (Char b0 b1 b2 b3 b4 b5 b6 b7) =
     (if k = 0 then Char (\<not> b0) b1 b2 b3 b4 b5 b6 b7
      else if k = 1 then Char b0 (\<not> b1) b2 b3 b4 b5 b6 b7
      else if k = 2 then Char b0 b1 (\<not> b2) b3 b4 b5 b6 b7
      else if k = 3 then Char b0 b1 b2 (\<not> b3) b4 b5 b6 b7
      else if k = 4 then Char b0 b1 b2 b3 (\<not> b4) b5 b6 b7
      else if k = 5 then Char b0 b1 b2 b3 b4 (\<not> b5) b6 b7
      else if k = 6 then Char b0 b1 b2 b3 b4 b5 (\<not> b6) b7
      else if k = 7 then Char b0 b1 b2 b3 b4 b5 b6 (\<not> b7)
      else Char b0 b1 b2 b3 b4 b5 b6 b7)"

definition flip_bit_at :: "nat \<Rightarrow> nat \<Rightarrow> string \<Rightarrow> string" where
  "flip_bit_at i k s = (if i < length s then s[i := flip_char k (s ! i)] else s)"

text \<open>
  The middleware does not see the bytes of the request. \<open>app.ts\<close> installs
  \<open>express.json()\<close> in front of the routes: the body parser reads the raw body and
  leaves the parsed value in \<open>req.body\<close>, which is what \<open>slackVerify\<close> serialises
  again. \<open>JSON.parse\<close> is a library function, taken as a parameter.
\<close>

record RawRequest =
  raw_headers :: "string \<Rightarrow> string option"
  raw_body :: string

definition express_json :: "(string \<Rightarrow> json) \<Rightarrow> RawRequest \<Rightarrow> Request" where
  "express_json JSON_parse raw =
     \<lparr>req_headers = raw_headers raw, req_body = JSON_parse (raw_body raw)\<rparr>"

section \<open>The session store\<close>

text \<open>
  The tables of \<open>schema.sql\<close> as lists of rows. Identifiers are the UUIDs of the
  database, timestamps are points of its clock. \<open>UNIQUE(slack_team_id)\<close> and
  \<open>unique_slack_thread\<close> are the constraints the two upserts name as their conflict
  targets. The statements are modelled on values that fit their columns.
\<close>

type_synonym uuid = nat
type_synonym timestamp = int

datatype SessionStatus = Active | Completed | Failed | Archived

record WorkspaceRow =
  ws_id :: uuid
  slack_team_id :: string
  slack_team_name :: string
  notion_workspace_id :: "string option"
  ws_created_at :: timestamp
  ws_updated_at :: timestamp

record SessionRow =
  s_id :: uuid
  workspace_id :: uuid
  slack_channel_id :: string
  slack_thread_ts :: string
  notion_project_id :: "string option"
  notion_task_id :: "string option"
  s_context :: "json option"
  status :: "SessionStatus option"
  s_created_at :: timestamp
  s_updated_at :: timestamp

record Database =
  workspaces :: "WorkspaceRow list"
  minno_sessions :: "SessionRow list"

definition unique_slack_team_id :: "WorkspaceRow list \<Rightarrow> bool" where
  "unique_slack_team_id rows = distinct (map slack_team_id rows)"

definition unique_slack_thread :: "SessionRow list \<Rightarrow> bool" where
  "unique_slack_thread rows =
     distinct (map (\<lambda>r. (slack_channel_id r, slack_thread_ts r)) rows)"

text \<open>
  What a statement reads from the database server: \<open>CURRENT_TIMESTAMP\<close> and the
  value \<open>gen_random_uuid()\<close> gives to the \<open>id\<close> of an inserted row.
\<close>

record SqlEnv =
  CURRENT_TIMESTAMP :: timestamp
  gen_random_uuid :: uuid

definition COALESCE :: "'a option \<Rightarrow> 'a option \<Rightarrow> 'a option" where
  "COALESCE a b = (case a of Some v \<Rightarrow> Some v | None \<Rightarrow> b)"

text \<open>
  \<open>INSERT ... ON CONFLICT (key) DO UPDATE SET ... RETURNING *\<close>: the row that holds
  the key is updated in place; when there is none the new row is added. The statement
  returns the row it wrote.
\<close>

fun insert_on_conflict ::
  "('r \<Rightarrow> bool) \<Rightarrow> ('r \<Rightarrow> 'r) \<Rightarrow> 'r \<Rightarrow> 'r list \<Rightarrow> 'r \<times> 'r list" where
  "insert_on_conflict conflicts do_update new [] = (new, [new])"
| "insert_on_conflict conflicts do_update new (r # rs) =
     (if conflicts r then (do_update r, do_update r # rs)
      else (case insert_on_conflict conflicts do_update new rs of
              (written, rs') \<Rightarrow> (written, r # rs')))"

text \<open>
  The statement of \<open>upsertWorkspace\<close>, with parameters \<open>$1\<close>, \<open>$2\<close>, \<open>$3\<close>:
  the row of its \<open>VALUES\<close> clause (the other columns take their defaults) and its
  \<open>DO UPDATE SET\<close> clause.
\<close>

definition workspace_values :: "SqlEnv \<Rightarrow> string \<Rightarrow> string \<Rightarrow> string option \<Rightarrow> WorkspaceRow" where
  "workspace_values env p1 p2 p3 =
     \<lparr>ws_id = gen_random_uuid env,
      slack_team_id = p1,
      slack_team_name = p2,
      notion_workspace_id = p3,
      ws_created_at = CURRENT_TIMESTAMP env,
      ws_updated_at = CURRENT_TIMESTAMP env\<rparr>"

definition workspace_do_update :: "SqlEnv \<Rightarrow> string \<Rightarrow> string option \<Rightarrow> WorkspaceRow \<Rightarrow> WorkspaceRow" where
  "workspace_do_update env p2 p3 r =
     r\<lparr>slack_team_name := p2,
       notion_workspace_id := COALESCE p3 (notion_workspace_id r),
       ws_updated_at := CURRENT_TIMESTAMP env\<rparr>"

definition upsertWorkspace ::
  "SqlEnv \<Rightarrow> string \<Rightarrow> string \<Rightarrow> string option \<Rightarrow> Database \<Rightarrow> WorkspaceRow \<times> Database" where
  "upsertWorkspace env slackTeamId slackTeamName notionWorkspaceId db =
     (case insert_on_conflict
             (\<lambda>r. slack_team_id r = slackTeamId)
             (workspace_do_update env slackTeamName notionWorkspaceId)
             (workspace_values env slackTeamId slackTeamName notionWorkspaceId)
             (workspaces db) of
        (written, rows) \<Rightarrow> (written, db\<lparr>workspaces := rows\<rparr>))"

definition getWorkspaceBySlackTeamId :: "string \<Rightarrow> Database \<Rightarrow> WorkspaceRow option" where
  "getWorkspaceBySlackTeamId slackTeamId db =
     find (\<lambda>r. slack_team_id r = slackTeamId) (workspaces db)"

text \<open>
  The optional \<open>data\<close> argument of \<open>upsertMinnoSession\<close>. The parameters of the
  statement are \<open>data?.notionProjectId\<close>, \<open>data?.notionTaskId\<close>,
  \<open>data?.context ? JSON.stringify(data.context) : null\<close> (an object is always truthy)
  and \<open>data?.status || 'active'\<close>; the driver sends \<open>undefined\<close> as \<open>NULL\<close>.
  A new row needs its workspace to exist (\<open>REFERENCES workspaces(id)\<close>).
  \<open>session_values\<close> and \<open>session_do_update\<close> are the \<open>VALUES\<close> and
  \<open>DO UPDATE SET\<close> clauses of the statement over its parameters \<open>$1\<close> to \<open>$7\<close>.
\<close>

record SessionData =
  notionProjectId :: "string option"
  notionTaskId :: "string option"
  data_context :: "json option"
  data_status :: "SessionStatus option"

definition status_or_active :: "SessionStatus option \<Rightarrow> SessionStatus" where
  "status_or_active s = (case s of Some v \<Rightarrow> v | None \<Rightarrow> Active)"

definition session_values ::
  "SqlEnv \<Rightarrow> uuid \<Rightarrow> string \<Rightarrow> string \<Rightarrow> string option \<Rightarrow> string option \<Rightarrow> json option
     \<Rightarrow> SessionStatus option \<Rightarrow> SessionRow" where
  "session_values env p1 p2 p3 p4 p5 p6 p7 =
     \<lparr>s_id = gen_random_uuid env,
      workspace_id = p1,
      slack_channel_id = p2,
      slack_thread_ts = p3,
      notion_project_id = p4,
      notion_task_id = p5,
      s_context = p6,
      status = p7,
      s_created_at = CURRENT_TIMESTAMP env,
      s_updated_at = CURRENT_TIMESTAMP env\<rparr>"

definition session_do_update ::
  "SqlEnv \<Rightarrow> string option \<Rightarrow> string option \<Rightarrow> json option \<Rightarrow> SessionStatus option
     \<Rightarrow> SessionRow \<Rightarrow> SessionRow" where
  "session_do_update env p4 p5 p6 p7 r =
     r\<lparr>notion_project_id := COALESCE p4 (notion_project_id r),
       notion_task_id := COALESCE p5 (notion_task_id r),
       s_context := COALESCE p6 (s_context r),
       status := COALESCE p7 (status r),
       s_updated_at := CURRENT_TIMESTAMP env\<rparr>"

definition upsertMinnoSession ::
  "SqlEnv \<Rightarrow> uuid \<Rightarrow> string \<Rightarrow> string \<Rightarrow> SessionData option \<Rightarrow> Database
     \<Rightarrow> error + (SessionRow \<times> Database)" where
  "upsertMinnoSession env workspaceId slackChannelId slackThreadTs data db =
     (let p4 = Option.bind data notionProjectId;
          p5 = Option.bind data notionTaskId;
          p6 = Option.bind data data_context;
          p7 = Some (status_or_active (Option.bind data data_status));
          conflicts = (\<lambda>r. slack_channel_id r = slackChannelId
                             \<and> slack_thread_ts r = slackThreadTs)
      in if \<not> list_ex conflicts (minno_sessions db)
            \<and> \<not> list_ex (\<lambda>w. ws_id w = workspaceId) (workspaces db)
         then Inl ForeignKeyViolation
         else
           (case insert_on_conflict conflicts
                   (session_do_update env p4 p5 p6 p7)
                   (session_values env workspaceId slackChannelId slackThreadTs p4 p5 p6 p7)
                   (minno_sessions db) of
              (written, rows) \<Rightarrow> Inr (written, db\<lparr>minno_sessions := rows\<rparr>)))"

definition getMinnoSessionByThread :: "string \<Rightarrow> string \<Rightarrow> Database \<Rightarrow> SessionRow option" where
  "getMinnoSessionByThread slackChannelId slackThreadTs db =
     find (\<lambda>r. slack_channel_id r = slackChannelId \<and> slack_thread_ts r = slackThreadTs)
       (minno_sessions db)"


section \<open>The event ingestion route\<close>

text \<open>
  \<open>router.post('/events', slackVerify, handler)\<close>. What the handler does is recorded
  as the list of its effects, in order, next to the database it leaves behind.
  Destructuring reads the properties \<open>type\<close>, \<open>challenge\<close> and \<open>event\<close> of the
  body; it throws on \<open>null\<close>, and the handler's \<open>catch\<close> logs the error.
  \<open>res.json\<close> answers with status 200 and drops an undefined property.
\<close>

datatype Effect = Send Response | ConsoleLog | ConsoleError

definition getProp :: "json \<Rightarrow> string \<Rightarrow> error + json option" where
  "getProp v k = (case v of JNull \<Rightarrow> Inl TypeError | JObj fs \<Rightarrow> Inr (map_of fs k) | _ \<Rightarrow> Inr None)"

definition challengeObject :: "json option \<Rightarrow> json" where
  "challengeObject challenge =
     JObj (case challenge of None \<Rightarrow> [] | Some c \<Rightarrow> [(''challenge'', c)])"

definition eventsHandler :: "Request \<Rightarrow> Database \<Rightarrow> Effect list \<times> Database" where
  "eventsHandler req db =
     (case (getProp (req_body req) ''type'', getProp (req_body req) ''challenge'') of
        (Inr type, Inr challenge) \<Rightarrow>
          if type = Some (JStr ''url_verification'')
          then ([Send \<lparr>res_status = 200, res_body = Json (challengeObject challenge)\<rparr>], db)
          else (Send \<lparr>res_status = 200, res_body = NoBody\<rparr>
                  # (if type = Some (JStr ''event_callback'') then [ConsoleLog] else []), db)
      | _ \<Rightarrow> ([ConsoleError], db))"

definition postSlackEvents :: "Runtime \<Rightarrow> Request \<Rightarrow> Database \<Rightarrow> Effect list \<times> Database" where
  "postSlackEvents rt req db =
     (case slackVerify rt req of
        Responded r \<Rightarrow> ([Send r], db)
      | Next \<Rightarrow> eventsHandler req db)"

section \<open>Properties of the event validator\<close>

text \<open>
  The union accepts an event only under one of its three literals, and the event it
  returns carries the tag the input had.
\<close>

lemma SlackEventSchema_unknown_type:
  assumes "map_of efs ''type'' = Some t"
      and "t \<notin> {JStr ''app_mention'', JStr ''message'', JStr ''reaction_added''}"
  shows "SlackEventSchema (Some (JObj efs)) = None"
  using assms
  by (simp add: SlackEventSchema_def z_map_def z_object_def z_literal_def
        AppMentionEventSchema_def MessageEventSchema_def ReactionAddedEventSchema_def)

lemma SlackEventWrapperSchema_needs_event:
  assumes "SlackEventSchema (map_of fs ''event'') = None"
  shows "SlackEventWrapperSchema (Some (JObj fs)) = None"
  using assms
  by (simp add: SlackEventWrapperSchema_def z_object_def split: Option.bind_splits)

lemma SlackEventSchema_accepts_type:
  assumes "SlackEventSchema v = Some e"
  shows "\<exists>efs. v = Some (JObj efs) \<and> map_of efs ''type'' = Some (JStr (event_type e))"
  using assms
  by (auto simp: SlackEventSchema_def z_map_def z_object_def z_literal_def
        AppMentionEventSchema_def MessageEventSchema_def ReactionAddedEventSchema_def
      split: option.splits json.splits Option.bind_splits if_splits)

lemma parseSlackEventWrapper_keeps_event_type:
  assumes "parseSlackEventWrapper body = Inr w"
  shows "\<exists>fs efs. body = JObj fs \<and> map_of fs ''event'' = Some (JObj efs) \<and>
           map_of efs ''type'' = Some (JStr (event_type (event w)))"
proof -
  from assms have parsed: "SlackEventWrapperSchema (Some body) = Some w"
    by (simp add: parseSlackEventWrapper_def split: option.splits)
  then obtain fs where body: "body = JObj fs"
    by (cases body) (simp_all add: SlackEventWrapperSchema_def z_object_def)
  from parsed body have "SlackEventSchema (map_of fs ''event'') = Some (event w)"
    by (auto simp: SlackEventWrapperSchema_def z_object_def split: Option.bind_splits)
  from SlackEventSchema_accepts_type [OF this] body show ?thesis
    by blast
qed

text \<open>
  Claim C1. An envelope whose nested event carries a \<open>type\<close> outside
  \<open>app_mention\<close>, \<open>message\<close>, \<open>reaction_added\<close> is rejected:
  \<open>parseSlackEventWrapper\<close> throws the validation error, whatever the other fields
  of the envelope and of the event are, and whatever kind of value the tag is.
\<close>

theorem parseSlackEventWrapper_rejects_unknown_event_type:
  assumes "map_of fs ''event'' = Some (JObj efs)"
      and "map_of efs ''type'' = Some t"
      and "t \<notin> {JStr ''app_mention'', JStr ''message'', JStr ''reaction_added''}"
  shows "parseSlackEventWrapper (JObj fs) = Inl ZodError"
proof -
  have "SlackEventSchema (map_of fs ''event'') = None"
    using assms by (simp add: SlackEventSchema_unknown_type)
  then have "SlackEventWrapperSchema (Some (JObj fs)) = None"
    by (rule SlackEventWrapperSchema_needs_event)
  then show ?thesis
    by (simp add: parseSlackEventWrapper_def)
qed

theorem parseSlackEventWrapper_rejects_unknown_event_type_witness:
  "parseSlackEventWrapper
     (JObj [(''token'', JStr ''tok''), (''team_id'', JStr ''T1234567890''),
            (''api_app_id'', JStr ''A1''),
            (''event'', JObj [(''type'', JStr ''channel_created''), (''user'', JStr ''U1''),
                             (''text'', JStr ''hello''), (''ts'', JStr ''1700000000.000100''),
                             (''channel'', JStr ''C1''),
                             (''event_ts'', JStr ''1700000000.000100'')]),
            (''type'', JStr ''event_callback''), (''event_id'', JStr ''Ev1''),
            (''event_time'', JNum 1700000000)]) = Inl ZodError"
  using parseSlackEventWrapper_rejects_unknown_event_type
    [of "[(''token'', JStr ''tok''), (''team_id'', JStr ''T1234567890''),
            (''api_app_id'', JStr ''A1''),
            (''event'', JObj [(''type'', JStr ''channel_created''), (''user'', JStr ''U1''),
                             (''text'', JStr ''hello''), (''ts'', JStr ''1700000000.000100''),
                             (''channel'', JStr ''C1''),
                             (''event_ts'', JStr ''1700000000.000100'')]),
            (''type'', JStr ''event_callback''), (''event_id'', JStr ''Ev1''),
            (''event_time'', JNum 1700000000)]"
        "[(''type'', JStr ''channel_created''), (''user'', JStr ''U1''),
                             (''text'', JStr ''hello''), (''ts'', JStr ''1700000000.000100''),
                             (''channel'', JStr ''C1''),
                             (''event_ts'', JStr ''1700000000.000100'')]"
        "JStr ''channel_created''"]
  by simp

text \<open>
  Claim C5. \<open>isThreadMessage\<close> is false on the root message of a thread, whose
  \<open>thread_ts\<close> equals its own \<open>ts\<close>, and true on a message whose \<open>thread_ts\<close>
  is present and differs from its \<open>ts\<close>.
\<close>

theorem isThreadMessage_root_and_reply:
  "(msg_thread_ts e = Some (msg_ts e) \<longrightarrow> \<not> isThreadMessage e) \<and>
   (\<forall>t. msg_thread_ts e = Some t \<and> t \<noteq> msg_ts e \<longrightarrow> isThreadMessage e)"
  by (simp add: isThreadMessage_def)

theorem isThreadMessage_root_and_reply_witness:
  "\<not> isThreadMessage
       \<lparr>msg_subtype = None, msg_user = Some ''U1'', msg_text = ''root'',
        msg_ts = ''1700000000.000100'', msg_channel = ''C1'',
        msg_event_ts = ''1700000000.000100'',
        msg_thread_ts = Some ''1700000000.000100'', msg_bot_id = None\<rparr> \<and>
   isThreadMessage
       \<lparr>msg_subtype = None, msg_user = Some ''U2'', msg_text = ''reply'',
        msg_ts = ''1700000042.000200'', msg_channel = ''C1'',
        msg_event_ts = ''1700000042.000200'',
        msg_thread_ts = Some ''1700000000.000100'', msg_bot_id = None\<rparr>"
  using isThreadMessage_root_and_reply
    [of "\<lparr>msg_subtype = None, msg_user = Some ''U1'', msg_text = ''root'',
        msg_ts = ''1700000000.000100'', msg_channel = ''C1'',
        msg_event_ts = ''1700000000.000100'',
        msg_thread_ts = Some ''1700000000.000100'', msg_bot_id = None\<rparr>"]
    isThreadMessage_root_and_reply
    [of "\<lparr>msg_subtype = None, msg_user = Some ''U2'', msg_text = ''reply'',
        msg_ts = ''1700000042.000200'', msg_channel = ''C1'',
        msg_event_ts = ''1700000042.000200'',
        msg_thread_ts = Some ''1700000000.000100'', msg_bot_id = None\<rparr>"]
  by simp


section \<open>Properties of the signature verifier\<close>

text \<open>
  The encoding of a string into a buffer is injective, so the comparison of the two
  buffers succeeds exactly when the two signatures are the same string; a length
  mismatch and a content mismatch both end in the 401 response.
\<close>

lemma utf8_of_char_prefix_free:
  assumes "utf8_of_char a @ xs = utf8_of_char b @ ys"
  shows "a = b \<and> xs = ys"
proof -
  let ?n = "of_char a :: nat" and ?m = "of_char b :: nat"
  have "?n = ?m \<and> xs = ys"
  proof (cases "?n < 128")
    case na: True
    show ?thesis
    proof (cases "?m < 128")
      case True
      with na assms show ?thesis by (simp add: utf8_of_char_def Let_def)
    next
      case False
      with na assms show ?thesis by (simp add: utf8_of_char_def Let_def)
    qed
  next
    case na: False
    show ?thesis
    proof (cases "?m < 128")
      case True
      with na assms show ?thesis by (simp add: utf8_of_char_def Let_def)
    next
      case False
      with na assms have "?n div 64 = ?m div 64" "?n mod 64 = ?m mod 64" "xs = ys"
        by (simp_all add: utf8_of_char_def Let_def)
      then show ?thesis by (metis div_mult_mod_eq)
    qed
  qed
  then show ?thesis by simp
qed

lemma Buffer_from_inj: "Buffer_from a = Buffer_from b \<Longrightarrow> a = b"
proof (induction a arbitrary: b)
  case Nil
  then show ?case
    by (cases b) (auto simp: Buffer_from_def utf8_of_char_def Let_def split: if_splits)
next
  case (Cons x xs)
  show ?case
  proof (cases b)
    case Nil
    with Cons.prems show ?thesis
      by (auto simp: Buffer_from_def utf8_of_char_def Let_def split: if_splits)
  next
    case (Cons y ys)
    with Cons.prems have "utf8_of_char x @ Buffer_from xs = utf8_of_char y @ Buffer_from ys"
      by (simp add: Buffer_from_def)
    then have "x = y" "Buffer_from xs = Buffer_from ys"
      using utf8_of_char_prefix_free by blast+
    with Cons.IH Cons show ?thesis by simp
  qed
qed

lemma flip_char_neq: "k < 8 \<Longrightarrow> flip_char k c \<noteq> c"
  by (cases c) auto

lemma flip_bit_at_neq:
  assumes "i < length s" "k < 8"
  shows "flip_bit_at i k s \<noteq> s"
proof
  assume "flip_bit_at i k s = s"
  then have "s[i := flip_char k (s ! i)] ! i = s ! i"
    using assms by (simp add: flip_bit_at_def)
  then show False
    using assms flip_char_neq by simp
qed

lemma compareSignatures_iff:
  "compareSignatures signature mine =
     (if signature = mine then Next
      else Responded \<lparr>res_status = 401, res_body = Text ''Invalid signature''\<rparr>)"
proof (cases "signature = mine")
  case True
  then show ?thesis by (simp add: compareSignatures_def timingSafeEqual_def)
next
  case False
  then have "Buffer_from signature \<noteq> Buffer_from mine"
    using Buffer_from_inj by blast
  with False show ?thesis by (simp add: compareSignatures_def timingSafeEqual_def)
qed

lemma slackVerify_present:
  assumes "req_headers req ''x-slack-signature'' = Some signature"
      and "req_headers req ''x-slack-request-timestamp'' = Some timestamp"
      and "signature \<noteq> []" "timestamp \<noteq> []"
  shows "slackVerify rt req =
     (if timestampTooFar (now_ms rt div 1000) (parseInt timestamp)
      then Responded \<lparr>res_status = 400, res_body = Text ''Request timestamp is too old''\<rparr>
      else compareSignatures signature (mySignature rt timestamp (req_body req)))"
  using assms by (simp add: slackVerify_def)

lemma parseInt_empty: "parseInt [] = None"
  by (simp add: parseInt_def)

lemma slackVerify_no_timestamp:
  assumes "req_headers req ''x-slack-request-timestamp'' = None"
  shows "slackVerify rt req = missingHeaders"
  using assms by (simp add: slackVerify_def split: option.splits)

lemma slackVerify_stale:
  assumes "req_headers req ''x-slack-request-timestamp'' = Some t"
      and "parseInt t = Some n" and "\<bar>now_ms rt div 1000 - n\<bar> > 300"
  shows "slackVerify rt req = missingHeaders \<or>
         slackVerify rt req =
           Responded \<lparr>res_status = 400, res_body = Text ''Request timestamp is too old''\<rparr>"
  using assms by (simp add: slackVerify_def timestampTooFar_def split: option.splits)

text \<open>
  With both headers in place, the middleware calls \<open>next()\<close> exactly when neither
  header is empty, the timestamp is not rejected, and the signature header is the
  signature the middleware computes itself.
\<close>

lemma slackVerify_next_iff:
  assumes "req_headers req ''x-slack-signature'' = Some signature"
      and "req_headers req ''x-slack-request-timestamp'' = Some timestamp"
  shows "slackVerify rt req = Next \<longleftrightarrow>
           signature \<noteq> [] \<and> timestamp \<noteq> [] \<and>
           \<not> timestampTooFar (now_ms rt div 1000) (parseInt timestamp) \<and>
           signature = mySignature rt timestamp (req_body req)"
  using assms
  by (simp add: slackVerify_def missingHeaders_def compareSignatures_iff)

text \<open>
  Claim C2, as amended. A signature header that differs in one bit of one character from
  the signature the verifier computes for the request is never passed on: the answer is
  401 when the timestamp reads as a number within 300 seconds of the clock, and 400 when
  it reads as a number further away. This holds for every keyed hash function. Which
  string the verifier signs as the body, and so whether a signature made over the body
  of the request is accepted, is no part of this statement.
\<close>

theorem slackVerify_mutated_signature_rejected:
  assumes "req_headers req ''x-slack-request-timestamp'' = Some T"
      and "i < length (mySignature rt T (req_body req))" and "k < 8"
      and "req_headers req ''x-slack-signature'' =
             Some (flip_bit_at i k (mySignature rt T (req_body req)))"
  shows "slackVerify rt req \<noteq> Next \<and>
         ((\<exists>n. parseInt T = Some n \<and> \<bar>now_ms rt div 1000 - n\<bar> \<le> 300) \<longrightarrow>
            slackVerify rt req =
              Responded \<lparr>res_status = 401, res_body = Text ''Invalid signature''\<rparr>) \<and>
         ((\<exists>n. parseInt T = Some n \<and> \<bar>now_ms rt div 1000 - n\<bar> > 300) \<longrightarrow>
            slackVerify rt req =
              Responded \<lparr>res_status = 400, res_body = Text ''Request timestamp is too old''\<rparr>)"
proof -
  let ?mine = "mySignature rt T (req_body req)"
  have ne: "flip_bit_at i k ?mine \<noteq> ?mine"
    using assms(2,3) by (rule flip_bit_at_neq)
  have filled: "flip_bit_at i k ?mine \<noteq> []"
    using assms(2) by (auto simp: flip_bit_at_def)
  have never: "slackVerify rt req \<noteq> Next"
    using slackVerify_next_iff [OF assms(4,1)] ne by simp
  have inside: "slackVerify rt req =
      Responded \<lparr>res_status = 401, res_body = Text ''Invalid signature''\<rparr>"
    if "\<exists>n. parseInt T = Some n \<and> \<bar>now_ms rt div 1000 - n\<bar> \<le> 300"
  proof -
    from that have "T \<noteq> []" "\<not> timestampTooFar (now_ms rt div 1000) (parseInt T)"
      using parseInt_empty by (auto simp: timestampTooFar_def)
    with slackVerify_present [OF assms(4,1) filled] ne show ?thesis
      by (simp add: compareSignatures_iff)
  qed
  have outside: "slackVerify rt req =
      Responded \<lparr>res_status = 400, res_body = Text ''Request timestamp is too old''\<rparr>"
    if "\<exists>n. parseInt T = Some n \<and> \<bar>now_ms rt div 1000 - n\<bar> > 300"
  proof -
    from that have "T \<noteq> []" "timestampTooFar (now_ms rt div 1000) (parseInt T)"
      using parseInt_empty by (auto simp: timestampTooFar_def)
    with slackVerify_present [OF assms(4,1) filled] show ?thesis
      by simp
  qed
  from never inside outside show ?thesis by blast
qed

theorem slackVerify_mutated_signature_rejected_witness:
  "slackVerify
     \<lparr>signingSecret = ''8f742231b10e8888abcd99yyyzzz85a5'', now_ms = 1531420618999,
      hmac_sha256_hex = (\<lambda>key msg. if key = [] then ''00'' else ''a2''),
      JSON_stringify = (\<lambda>b. ''{}'')\<rparr>
     \<lparr>req_headers = [''x-slack-signature'' \<mapsto> ''v0=a3'',
                     ''x-slack-request-timestamp'' \<mapsto> ''1531420618''],
      req_body = JObj []\<rparr> =
     Responded \<lparr>res_status = 401, res_body = Text ''Invalid signature''\<rparr>
   \<and>
   slackVerify
     \<lparr>signingSecret = ''8f742231b10e8888abcd99yyyzzz85a5'', now_ms = 1531420618999,
      hmac_sha256_hex = (\<lambda>key msg. if key = [] then ''00'' else ''a2''),
      JSON_stringify = (\<lambda>b. ''{}'')\<rparr>
     \<lparr>req_headers = [''x-slack-signature'' \<mapsto> ''v0=a3'',
                     ''x-slack-request-timestamp'' \<mapsto> ''1531420000''],
      req_body = JObj []\<rparr> =
     Responded \<lparr>res_status = 400, res_body = Text ''Request timestamp is too old''\<rparr>"
proof -
  let ?rt = "\<lparr>signingSecret = ''8f742231b10e8888abcd99yyyzzz85a5'', now_ms = 1531420618999,
      hmac_sha256_hex = (\<lambda>key msg. if key = [] then ''00'' else ''a2''),
      JSON_stringify = (\<lambda>b. ''{}'')\<rparr>"
  let ?fresh = "\<lparr>req_headers = [''x-slack-signature'' \<mapsto> ''v0=a3'',
                     ''x-slack-request-timestamp'' \<mapsto> ''1531420618''],
      req_body = JObj []\<rparr>"
  let ?stale = "\<lparr>req_headers = [''x-slack-signature'' \<mapsto> ''v0=a3'',
                     ''x-slack-request-timestamp'' \<mapsto> ''1531420000''],
      req_body = JObj []\<rparr>"
  have p: "parseInt ''1531420618'' = Some 1531420618" "parseInt ''1531420000'' = Some 1531420000"
    by (simp_all add: parseInt_def isStrWhiteSpaceChar_def isDigit_def digitsValue_def)
  have m: "mySignature ?rt ''1531420618'' (JObj []) = ''v0=a2''"
    "mySignature ?rt ''1531420000'' (JObj []) = ''v0=a2''"
    by (simp_all add: mySignature_def)
  have f: "flip_bit_at 4 0 ''v0=a2'' = ''v0=a3''"
    by (simp add: flip_bit_at_def)
  have a: "slackVerify ?rt ?fresh =
     Responded \<lparr>res_status = 401, res_body = Text ''Invalid signature''\<rparr>"
    using slackVerify_mutated_signature_rejected
            [where req = ?fresh and T = "''1531420618''" and rt = ?rt and i = 4 and k = 0,
             THEN conjunct2, THEN conjunct1] p m f
    by simp
  have b: "slackVerify ?rt ?stale =
     Responded \<lparr>res_status = 400, res_body = Text ''Request timestamp is too old''\<rparr>"
    using slackVerify_mutated_signature_rejected
            [where req = ?stale and T = "''1531420000''" and rt = ?rt and i = 4 and k = 0,
             THEN conjunct2, THEN conjunct2] p m f
    by simp
  from a b show ?thesis by simp
qed

text \<open>
  Claim C2 as it is written gives 401 to a mutated signature for every timestamp. Here
  the timestamp is 618 seconds old and the signature header is the computed signature
  with its last bit flipped: the freshness check answers 400 before any comparison.
\<close>

theorem slackVerify_mutated_signature_stale_counterexample:
  "mySignature
     \<lparr>signingSecret = ''8f742231b10e8888abcd99yyyzzz85a5'', now_ms = 1531420618999,
      hmac_sha256_hex = (\<lambda>key msg. if key = [] then ''00'' else ''a2''),
      JSON_stringify = (\<lambda>b. ''{}'')\<rparr>
     ''1531420000'' (JObj []) = ''v0=a2''
   \<and> flip_bit_at 4 0 ''v0=a2'' = ''v0=a3''
   \<and> slackVerify
     \<lparr>signingSecret = ''8f742231b10e8888abcd99yyyzzz85a5'', now_ms = 1531420618999,
      hmac_sha256_hex = (\<lambda>key msg. if key = [] then ''00'' else ''a2''),
      JSON_stringify = (\<lambda>b. ''{}'')\<rparr>
     \<lparr>req_headers = [''x-slack-signature'' \<mapsto> ''v0=a3'',
                     ''x-slack-request-timestamp'' \<mapsto> ''1531420000''],
      req_body = JObj []\<rparr>
     = Responded \<lparr>res_status = 400, res_body = Text ''Request timestamp is too old''\<rparr>
   \<and> Responded \<lparr>res_status = 400, res_body = Text ''Request timestamp is too old''\<rparr>
     \<noteq> Responded \<lparr>res_status = 401, res_body = Text ''Invalid signature''\<rparr>"
proof -
  have p: "parseInt ''1531420000'' = Some 1531420000"
    by (simp add: parseInt_def isStrWhiteSpaceChar_def isDigit_def digitsValue_def)
  show ?thesis
    using p
    by (simp add: mySignature_def flip_bit_at_def slackVerify_def timestampTooFar_def)
qed

text \<open>
  The first half of claim C2 is about a signature made over \<open>v0:T:B\<close> for the body
  \<open>B\<close> of the request. The middleware signs \<open>JSON.stringify(req.body)\<close>, the
  parsed body serialised again, which is not the raw body whenever the sender's JSON
  has another spacing, key order or escaping. Such a request, signed over its raw body
  with a timestamp inside the window, is answered 401 as soon as the hash separates the
  two strings. The evaluation takes the raw body \<open>{"a": 1}\<close>, which parses to an
  object that is serialised as \<open>{"a":1}\<close>.
\<close>

lemma slackVerify_signature_over_raw_body:
  assumes "raw_headers raw ''x-slack-request-timestamp'' = Some T"
      and "parseInt T = Some n" and "\<bar>now_ms rt div 1000 - n\<bar> \<le> 300"
      and "raw_headers raw ''x-slack-signature'' =
             Some (''v0='' @ hmac_sha256_hex rt (signingSecret rt)
                              (''v0:'' @ T @ '':'' @ raw_body raw))"
      and "hmac_sha256_hex rt (signingSecret rt) (''v0:'' @ T @ '':'' @ raw_body raw) \<noteq>
           hmac_sha256_hex rt (signingSecret rt)
             (''v0:'' @ T @ '':'' @ JSON_stringify rt (JSON_parse (raw_body raw)))"
  shows "slackVerify rt (express_json JSON_parse raw) =
           Responded \<lparr>res_status = 401, res_body = Text ''Invalid signature''\<rparr>"
proof -
  let ?req = "express_json JSON_parse raw"
  let ?sig = "''v0='' @ hmac_sha256_hex rt (signingSecret rt) (''v0:'' @ T @ '':'' @ raw_body raw)"
  have h: "req_headers ?req ''x-slack-signature'' = Some ?sig"
    "req_headers ?req ''x-slack-request-timestamp'' = Some T"
    using assms(1,4) by (simp_all add: express_json_def)
  have T: "T \<noteq> []"
    using assms(2) parseInt_empty by auto
  have fresh: "\<not> timestampTooFar (now_ms rt div 1000) (parseInt T)"
    using assms(2,3) by (simp add: timestampTooFar_def)
  have differ: "?sig \<noteq> mySignature rt T (req_body ?req)"
    using assms(5) by (simp add: mySignature_def express_json_def)
  have "?sig \<noteq> []" by simp
  from slackVerify_present [OF h this T] fresh differ show ?thesis
    by (simp add: compareSignatures_iff)
qed

theorem slackVerify_raw_body_signature_rejected:
  "slackVerify
     \<lparr>signingSecret = ''8f742231b10e8888abcd99yyyzzz85a5'', now_ms = 1531420618999,
      hmac_sha256_hex =
        (\<lambda>key msg. if msg = ''v0:1531420618:{\"a\": 1}'' then ''a2'' else ''5c''),
      JSON_stringify = (\<lambda>b. if b = JObj [(''a'', JNum 1)] then ''{\"a\":1}'' else ''{}'')\<rparr>
     (express_json
        (\<lambda>s. if s = ''{\"a\": 1}'' then JObj [(''a'', JNum 1)] else JObj [])
        \<lparr>raw_headers = [''x-slack-signature'' \<mapsto> ''v0=a2'',
                         ''x-slack-request-timestamp'' \<mapsto> ''1531420618''],
         raw_body = ''{\"a\": 1}''\<rparr>) =
     Responded \<lparr>res_status = 401, res_body = Text ''Invalid signature''\<rparr>"
proof -
  let ?rt = "\<lparr>signingSecret = ''8f742231b10e8888abcd99yyyzzz85a5'', now_ms = 1531420618999,
      hmac_sha256_hex =
        (\<lambda>key msg. if msg = ''v0:1531420618:{\"a\": 1}'' then ''a2'' else ''5c''),
      JSON_stringify = (\<lambda>b. if b = JObj [(''a'', JNum 1)] then ''{\"a\":1}'' else ''{}'')\<rparr>"
  let ?raw = "\<lparr>raw_headers = [''x-slack-signature'' \<mapsto> ''v0=a2'',
                         ''x-slack-request-timestamp'' \<mapsto> ''1531420618''],
         raw_body = ''{\"a\": 1}''\<rparr>"
  have p: "parseInt ''1531420618'' = Some 1531420618"
    by (simp add: parseInt_def isStrWhiteSpaceChar_def isDigit_def digitsValue_def)
  show ?thesis
    using slackVerify_signature_over_raw_body
            [where raw = ?raw and T = "''1531420618''" and n = 1531420618 and rt = ?rt
               and JSON_parse = "\<lambda>s. if s = ''{\"a\": 1}'' then JObj [(''a'', JNum 1)] else JObj []"]
          p
    by simp
qed

text \<open>
  Claim C3. A request without a timestamp header, or whose timestamp reads as a number
  more than 300 seconds before or after the clock (in whole seconds), is answered 400
  and is not passed on. No assumption is made on the signature header, and the answer
  is the same for every secret, hash function and body: the comparison of signatures
  plays no part in it.
\<close>

theorem slackVerify_rejects_missing_or_stale_timestamp:
  assumes "req_headers req ''x-slack-request-timestamp'' = None \<or>
           (\<exists>t n. req_headers req ''x-slack-request-timestamp'' = Some t \<and>
                  parseInt t = Some n \<and> \<bar>now_ms rt div 1000 - n\<bar> > 300)"
  shows "(\<exists>msg. slackVerify rt req = Responded \<lparr>res_status = 400, res_body = Text msg\<rparr>) \<and>
         slackVerify rt req \<noteq> Next \<and>
         slackVerify (rt\<lparr>signingSecret := S', hmac_sha256_hex := h', JSON_stringify := j'\<rparr>)
            (req\<lparr>req_body := b'\<rparr>) = slackVerify rt req"
proof -
  let ?rt' = "rt\<lparr>signingSecret := S', hmac_sha256_hex := h', JSON_stringify := j'\<rparr>"
  let ?req' = "req\<lparr>req_body := b'\<rparr>"
  from assms show ?thesis
  proof
    assume none: "req_headers req ''x-slack-request-timestamp'' = None"
    then have "slackVerify rt req = missingHeaders" "slackVerify ?rt' ?req' = missingHeaders"
      by (simp_all add: slackVerify_no_timestamp)
    then show ?thesis by (simp add: missingHeaders_def)
  next
    assume "\<exists>t n. req_headers req ''x-slack-request-timestamp'' = Some t \<and>
              parseInt t = Some n \<and> \<bar>now_ms rt div 1000 - n\<bar> > 300"
    then obtain t n where t: "req_headers req ''x-slack-request-timestamp'' = Some t"
      and n: "parseInt t = Some n" and far: "\<bar>now_ms rt div 1000 - n\<bar> > 300"
      by blast
    have same: "slackVerify ?rt' ?req' = slackVerify rt req"
      using t n far by (simp add: slackVerify_def timestampTooFar_def split: option.splits)
    from slackVerify_stale [OF t n far] same show ?thesis
      by (auto simp: missingHeaders_def)
  qed
qed

theorem slackVerify_rejects_missing_or_stale_timestamp_witness:
  "(\<exists>msg. slackVerify
      \<lparr>signingSecret = ''8f742231b10e8888abcd99yyyzzz85a5'', now_ms = 1531420618999,
       hmac_sha256_hex = (\<lambda>key msg. if key = [] then ''00'' else ''a2''),
       JSON_stringify = (\<lambda>b. ''{}'')\<rparr>
      \<lparr>req_headers = [''x-slack-signature'' \<mapsto> ''v0=a2''], req_body = JObj []\<rparr>
        = Responded \<lparr>res_status = 400, res_body = Text msg\<rparr>) \<and>
   (\<exists>msg. slackVerify
      \<lparr>signingSecret = ''8f742231b10e8888abcd99yyyzzz85a5'', now_ms = 1531420618999,
       hmac_sha256_hex = (\<lambda>key msg. if key = [] then ''00'' else ''a2''),
       JSON_stringify = (\<lambda>b. ''{}'')\<rparr>
      \<lparr>req_headers = [''x-slack-signature'' \<mapsto> ''v0=a2'',
                      ''x-slack-request-timestamp'' \<mapsto> ''1531420000''],
       req_body = JObj []\<rparr>
        = Responded \<lparr>res_status = 400, res_body = Text msg\<rparr>)"
proof -
  let ?rt = "\<lparr>signingSecret = ''8f742231b10e8888abcd99yyyzzz85a5'', now_ms = 1531420618999,
       hmac_sha256_hex = (\<lambda>key msg. if key = [] then ''00'' else ''a2''),
       JSON_stringify = (\<lambda>b. ''{}'')\<rparr>"
  let ?absent = "\<lparr>req_headers = [''x-slack-signature'' \<mapsto> ''v0=a2''],
       req_body = JObj []\<rparr>"
  let ?stale = "\<lparr>req_headers = [''x-slack-signature'' \<mapsto> ''v0=a2'',
                      ''x-slack-request-timestamp'' \<mapsto> ''1531420000''],
       req_body = JObj []\<rparr>"
  have p: "parseInt ''1531420000'' = Some 1531420000"
    by (simp add: parseInt_def isStrWhiteSpaceChar_def isDigit_def digitsValue_def)
  have a: "\<exists>msg. slackVerify ?rt ?absent = Responded \<lparr>res_status = 400, res_body = Text msg\<rparr>"
    using slackVerify_rejects_missing_or_stale_timestamp [of ?absent ?rt, THEN conjunct1]
    by simp
  have b: "\<exists>msg. slackVerify ?rt ?stale = Responded \<lparr>res_status = 400, res_body = Text msg\<rparr>"
    using slackVerify_rejects_missing_or_stale_timestamp [of ?stale ?rt, THEN conjunct1] p
    by simp
  from a b show ?thesis by simp
qed

text \<open>
  Claim C4. A signature header whose buffer differs in length from the buffer of the
  computed signature makes \<open>timingSafeEqual\<close> throw. The request is never passed
  on, and when it reaches the comparison (both headers non-empty, the timestamp not
  rejected as too far from the clock) the exception is caught and the answer is 401.
\<close>

theorem slackVerify_length_mismatch_is_401:
  assumes "req_headers req ''x-slack-signature'' = Some signature"
      and "req_headers req ''x-slack-request-timestamp'' = Some timestamp"
      and "length (Buffer_from signature) \<noteq>
           length (Buffer_from (mySignature rt timestamp (req_body req)))"
  shows "timingSafeEqual (Buffer_from signature)
           (Buffer_from (mySignature rt timestamp (req_body req))) = Inl RangeError \<and>
         slackVerify rt req \<noteq> Next \<and>
         (signature \<noteq> [] \<and> timestamp \<noteq> [] \<and>
          \<not> timestampTooFar (now_ms rt div 1000) (parseInt timestamp) \<longrightarrow>
            slackVerify rt req =
              Responded \<lparr>res_status = 401, res_body = Text ''Invalid signature''\<rparr>)"
proof -
  have thrown: "timingSafeEqual (Buffer_from signature)
           (Buffer_from (mySignature rt timestamp (req_body req))) = Inl RangeError"
    using assms(3) by (simp add: timingSafeEqual_def)
  then have caught: "compareSignatures signature (mySignature rt timestamp (req_body req)) =
      Responded \<lparr>res_status = 401, res_body = Text ''Invalid signature''\<rparr>"
    by (simp add: compareSignatures_def)
  have never: "slackVerify rt req \<noteq> Next"
    using assms(1,2) caught by (simp add: slackVerify_def missingHeaders_def)
  have "slackVerify rt req =
      Responded \<lparr>res_status = 401, res_body = Text ''Invalid signature''\<rparr>"
    if "signature \<noteq> []" "timestamp \<noteq> []"
       "\<not> timestampTooFar (now_ms rt div 1000) (parseInt timestamp)"
    using slackVerify_present [OF assms(1,2) that(1,2)] that(3) caught by simp
  with thrown never show ?thesis by blast
qed

theorem slackVerify_length_mismatch_is_401_witness:
  "slackVerify
     \<lparr>signingSecret = ''8f742231b10e8888abcd99yyyzzz85a5'', now_ms = 1531420618999,
      hmac_sha256_hex = (\<lambda>key msg. if key = [] then ''00'' else ''a2''),
      JSON_stringify = (\<lambda>b. ''{}'')\<rparr>
     \<lparr>req_headers = [''x-slack-signature'' \<mapsto> ''v0=a2ff'',
                     ''x-slack-request-timestamp'' \<mapsto> ''1531420618''],
      req_body = JObj []\<rparr> =
     Responded \<lparr>res_status = 401, res_body = Text ''Invalid signature''\<rparr>"
proof -
  let ?rt = "\<lparr>signingSecret = ''8f742231b10e8888abcd99yyyzzz85a5'', now_ms = 1531420618999,
      hmac_sha256_hex = (\<lambda>key msg. if key = [] then ''00'' else ''a2''),
      JSON_stringify = (\<lambda>b. ''{}'')\<rparr>"
  let ?req = "\<lparr>req_headers = [''x-slack-signature'' \<mapsto> ''v0=a2ff'',
                     ''x-slack-request-timestamp'' \<mapsto> ''1531420618''],
      req_body = JObj []\<rparr>"
  have p: "parseInt ''1531420618'' = Some 1531420618"
    by (simp add: parseInt_def isStrWhiteSpaceChar_def isDigit_def digitsValue_def)
  have fresh: "\<not> timestampTooFar (now_ms ?rt div 1000) (parseInt ''1531420618'')"
    using p by (simp add: timestampTooFar_def)
  have len: "length (Buffer_from ''v0=a2ff'') \<noteq>
             length (Buffer_from (mySignature ?rt ''1531420618'' (req_body ?req)))"
    by (simp add: Buffer_from_def utf8_of_char_def mySignature_def)
  show ?thesis
    using slackVerify_length_mismatch_is_401
            [where req = ?req and signature = "''v0=a2ff''" and timestamp = "''1531420618''"
               and rt = ?rt, THEN conjunct2, THEN conjunct2]
          fresh len
    by simp
qed

text \<open>
  Claim C10. When the timestamp header is present and \<open>parseInt\<close> reads it as
  \<open>NaN\<close>, the comparison with 300 is false: the request is never answered
  \<open>Request timestamp is too old\<close>, and, both headers being non-empty, its outcome is
  the outcome of the signature comparison.
\<close>

theorem slackVerify_unparseable_timestamp_passes_freshness:
  assumes "req_headers req ''x-slack-request-timestamp'' = Some timestamp"
      and "parseInt timestamp = None"
  shows "\<not> timestampTooFar (now_ms rt div 1000) (parseInt timestamp) \<and>
         slackVerify rt req \<noteq>
           Responded \<lparr>res_status = 400, res_body = Text ''Request timestamp is too old''\<rparr> \<and>
         (\<forall>signature. req_headers req ''x-slack-signature'' = Some signature \<and>
              signature \<noteq> [] \<and> timestamp \<noteq> [] \<longrightarrow>
            slackVerify rt req =
              compareSignatures signature (mySignature rt timestamp (req_body req)))"
proof -
  have nan: "\<not> timestampTooFar (now_ms rt div 1000) (parseInt timestamp)"
    using assms(2) by (simp add: timestampTooFar_def)
  have "slackVerify rt req \<noteq>
      Responded \<lparr>res_status = 400, res_body = Text ''Request timestamp is too old''\<rparr>"
    using assms nan
    by (auto simp: slackVerify_def missingHeaders_def compareSignatures_iff split: option.splits)
  moreover have "slackVerify rt req =
      compareSignatures signature (mySignature rt timestamp (req_body req))"
    if "req_headers req ''x-slack-signature'' = Some signature" "signature \<noteq> []"
       "timestamp \<noteq> []" for signature
    using slackVerify_present [OF that(1) assms(1) that(2,3)] nan by simp
  ultimately show ?thesis using nan by blast
qed

theorem slackVerify_unparseable_timestamp_passes_freshness_witness:
  "slackVerify
     \<lparr>signingSecret = ''8f742231b10e8888abcd99yyyzzz85a5'', now_ms = 1531420618999,
      hmac_sha256_hex = (\<lambda>key msg. if key = [] then ''00'' else ''a2''),
      JSON_stringify = (\<lambda>b. ''{}'')\<rparr>
     \<lparr>req_headers = [''x-slack-signature'' \<mapsto> ''v0=a2'',
                     ''x-slack-request-timestamp'' \<mapsto> ''yesterday''],
      req_body = JObj []\<rparr> = Next"
proof -
  let ?rt = "\<lparr>signingSecret = ''8f742231b10e8888abcd99yyyzzz85a5'', now_ms = 1531420618999,
      hmac_sha256_hex = (\<lambda>key msg. if key = [] then ''00'' else ''a2''),
      JSON_stringify = (\<lambda>b. ''{}'')\<rparr>"
  let ?req = "\<lparr>req_headers = [''x-slack-signature'' \<mapsto> ''v0=a2'',
                     ''x-slack-request-timestamp'' \<mapsto> ''yesterday''],
      req_body = JObj []\<rparr>"
  have p: "parseInt ''yesterday'' = None"
    by (simp add: parseInt_def isStrWhiteSpaceChar_def isDigit_def)
  have m: "mySignature ?rt ''yesterday'' (req_body ?req) = ''v0=a2''"
    by (simp add: mySignature_def)
  have c: "compareSignatures ''v0=a2'' ''v0=a2'' = Next"
    by (simp add: compareSignatures_def timingSafeEqual_def)
  show ?thesis
    using slackVerify_unparseable_timestamp_passes_freshness
            [of ?req "''yesterday''" ?rt, THEN conjunct2, THEN conjunct2, rule_format,
             of "''v0=a2''"] p m c
    by simp
qed


section \<open>Properties of the event ingestion route\<close>

text \<open>
  Claim C9. A request to \<open>/slack/events\<close> that passes the verifier and whose body
  has \<open>type\<close> equal to \<open>url_verification\<close> is answered with status 200 and a JSON
  object whose \<open>challenge\<close> is the \<open>challenge\<close> of the body. That response is the
  only effect of the handler: nothing is dispatched or logged, and the database is the
  one the handler started from.
\<close>

theorem postSlackEvents_url_verification:
  assumes "slackVerify rt req = Next"
      and "getProp (req_body req) ''type'' = Inr (Some (JStr ''url_verification''))"
  shows "\<exists>challenge.
           getProp (req_body req) ''challenge'' = Inr challenge \<and>
           getProp (challengeObject challenge) ''challenge'' = Inr challenge \<and>
           postSlackEvents rt req db =
             ([Send \<lparr>res_status = 200, res_body = Json (challengeObject challenge)\<rparr>], db)"
proof (cases "req_body req")
  case (JObj fs)
  have "getProp (challengeObject (map_of fs ''challenge'')) ''challenge''
          = Inr (map_of fs ''challenge'')"
    by (simp add: getProp_def challengeObject_def split: option.splits)
  with JObj assms show ?thesis
    by (simp add: postSlackEvents_def eventsHandler_def getProp_def)
qed (use assms in \<open>simp_all add: getProp_def\<close>)

theorem postSlackEvents_url_verification_witness:
  "postSlackEvents
     \<lparr>signingSecret = ''8f742231b10e8888abcd99yyyzzz85a5'', now_ms = 1531420618999,
      hmac_sha256_hex = (\<lambda>key msg. if key = [] then ''00'' else ''a2''),
      JSON_stringify = (\<lambda>b. ''{\"type\":\"url_verification\",\"challenge\":\"abc123\"}'')\<rparr>
     \<lparr>req_headers = [''x-slack-signature'' \<mapsto> ''v0=a2'',
                     ''x-slack-request-timestamp'' \<mapsto> ''1531420618''],
      req_body = JObj [(''type'', JStr ''url_verification''), (''challenge'', JStr ''abc123'')]\<rparr>
     \<lparr>workspaces = [], minno_sessions = []\<rparr> =
   ([Send \<lparr>res_status = 200, res_body = Json (JObj [(''challenge'', JStr ''abc123'')])\<rparr>],
    \<lparr>workspaces = [], minno_sessions = []\<rparr>)"
proof -
  let ?rt = "\<lparr>signingSecret = ''8f742231b10e8888abcd99yyyzzz85a5'', now_ms = 1531420618999,
      hmac_sha256_hex = (\<lambda>key msg. if key = [] then ''00'' else ''a2''),
      JSON_stringify = (\<lambda>b. ''{\"type\":\"url_verification\",\"challenge\":\"abc123\"}'')\<rparr>"
  let ?req = "\<lparr>req_headers = [''x-slack-signature'' \<mapsto> ''v0=a2'',
                     ''x-slack-request-timestamp'' \<mapsto> ''1531420618''],
      req_body = JObj [(''type'', JStr ''url_verification''), (''challenge'', JStr ''abc123'')]\<rparr>"
  have p: "parseInt ''1531420618'' = Some 1531420618"
    by (simp add: parseInt_def isStrWhiteSpaceChar_def isDigit_def digitsValue_def)
  have v: "slackVerify ?rt ?req = Next"
    using p
    by (simp add: slackVerify_def timestampTooFar_def mySignature_def compareSignatures_iff)
  have t: "getProp (req_body ?req) ''type'' = Inr (Some (JStr ''url_verification''))"
    by (simp add: getProp_def)
  show ?thesis
    using postSlackEvents_url_verification [OF v t, of "\<lparr>workspaces = [], minno_sessions = []\<rparr>"]
    by (simp add: getProp_def challengeObject_def)
qed


section \<open>Properties of the session store\<close>

text \<open>
  Facts about \<open>insert_on_conflict\<close>: which row it returns, that the returned row is
  the stored one, and that the keys of the table change only by the new key.
\<close>

lemma insert_on_conflict_found:
  assumes "find conflicts rows = Some old"
  shows "fst (insert_on_conflict conflicts do_update new rows) = do_update old"
  using assms
  by (induction rows) (auto split: if_splits prod.splits)

lemma insert_on_conflict_fresh:
  assumes "find conflicts rows = None"
  shows "insert_on_conflict conflicts do_update new rows = (new, rows @ [new])"
  using assms
  by (induction rows) (auto split: if_splits prod.splits)

lemma insert_on_conflict_length:
  assumes "find conflicts rows = Some old"
  shows "length (snd (insert_on_conflict conflicts do_update new rows)) = length rows"
  using assms
  by (induction rows) (auto split: if_splits prod.splits)

lemma insert_on_conflict_keys:
  assumes "\<And>r. key (do_update r) = key r" and "key new = k"
  shows "map key (snd (insert_on_conflict (\<lambda>r. key r = k) do_update new rows)) =
           (if k \<in> set (map key rows) then map key rows else map key rows @ [k])"
  using assms
  by (induction rows) (auto split: if_splits prod.splits)

lemma insert_on_conflict_stored:
  assumes "\<And>r. conflicts r \<Longrightarrow> conflicts (do_update r)" and "conflicts new"
  shows "find conflicts (snd (insert_on_conflict conflicts do_update new rows)) =
           Some (fst (insert_on_conflict conflicts do_update new rows))"
  using assms
  by (induction rows) (auto split: if_splits prod.splits)

lemma distinct_key_once:
  assumes "distinct (map key rows)" and "k \<in> set (map key rows)"
  shows "length (filter (\<lambda>r. key r = k) rows) = 1"
  using assms
proof (induction rows)
  case Nil
  then show ?case by simp
next
  case (Cons r rows)
  show ?case
  proof (cases "key r = k")
    case True
    with Cons.prems have "k \<notin> set (map key rows)" by auto
    then have "filter (\<lambda>r. key r = k) rows = []"
      by (auto simp: filter_empty_conv)
    with True show ?thesis by simp
  next
    case False
    with Cons show ?thesis by auto
  qed
qed

lemma find_Some_list_ex: "find P xs = Some x \<Longrightarrow> list_ex P xs"
  by (auto simp: find_Some_iff list_ex_iff)

subsection \<open>Workspaces\<close>

lemma upsertWorkspace_unfold:
  "upsertWorkspace env tid name link db =
     (fst (insert_on_conflict (\<lambda>r. slack_team_id r = tid)
             (workspace_do_update env name link) (workspace_values env tid name link)
             (workspaces db)),
      db\<lparr>workspaces :=
           snd (insert_on_conflict (\<lambda>r. slack_team_id r = tid)
                  (workspace_do_update env name link) (workspace_values env tid name link)
                  (workspaces db))\<rparr>)"
  by (simp add: upsertWorkspace_def split_beta)

lemma workspace_key_kept [simp]:
  "slack_team_id (workspace_do_update env name link r) = slack_team_id r"
  "slack_team_id (workspace_values env tid name link) = tid"
  by (simp_all add: workspace_do_update_def workspace_values_def)

lemma upsertWorkspace_keys:
  "map slack_team_id (workspaces (snd (upsertWorkspace env tid name link db))) =
     (if tid \<in> set (map slack_team_id (workspaces db))
      then map slack_team_id (workspaces db)
      else map slack_team_id (workspaces db) @ [tid])"
  by (simp add: upsertWorkspace_unfold insert_on_conflict_keys)

lemma upsertWorkspace_unique:
  assumes "unique_slack_team_id (workspaces db)"
  shows "unique_slack_team_id (workspaces (snd (upsertWorkspace env tid name link db)))"
  using assms by (simp add: unique_slack_team_id_def upsertWorkspace_keys)

lemma upsertWorkspace_stored:
  "getWorkspaceBySlackTeamId tid (snd (upsertWorkspace env tid name link db)) =
     Some (fst (upsertWorkspace env tid name link db))"
  by (simp add: upsertWorkspace_unfold getWorkspaceBySlackTeamId_def
        insert_on_conflict_stored)

lemma upsertWorkspace_existing:
  assumes "getWorkspaceBySlackTeamId tid db = Some old"
  shows "fst (upsertWorkspace env tid name link db) = workspace_do_update env name link old"
    and "length (workspaces (snd (upsertWorkspace env tid name link db))) = length (workspaces db)"
  using assms
  by (simp_all add: upsertWorkspace_unfold getWorkspaceBySlackTeamId_def
        insert_on_conflict_found insert_on_conflict_length)

lemma upsertWorkspace_updated_at:
  "ws_updated_at (fst (upsertWorkspace env tid name link db)) = CURRENT_TIMESTAMP env"
proof (cases "find (\<lambda>r. slack_team_id r = tid) (workspaces db)")
  case None
  then show ?thesis
    by (simp add: upsertWorkspace_def insert_on_conflict_fresh workspace_values_def)
next
  case (Some old)
  then show ?thesis
    using upsertWorkspace_existing(1) [of tid db old]
    by (simp add: getWorkspaceBySlackTeamId_def workspace_do_update_def)
qed

text \<open>
  Claim C8. Two calls of \<open>upsertWorkspace\<close> for the same team id, on a table that
  satisfies its uniqueness constraint, leave exactly one row for that team id, and the
  second call adds no row. The row keeps its \<open>id\<close>; its \<open>updated_at\<close> is the
  time of the second statement, later than the first when the clock has advanced; its
  name is the name of the second call; its linked Notion workspace id is the one of the
  second call when that is given, and the stored one when it is \<open>NULL\<close>.
\<close>

theorem upsertWorkspace_twice:
  assumes "unique_slack_team_id (workspaces db)"
      and "upsertWorkspace env1 tid name link1 db = (w1, db1)"
      and "upsertWorkspace env2 tid name2 link2 db1 = (w2, db2)"
  shows "length (filter (\<lambda>r. slack_team_id r = tid) (workspaces db2)) = 1 \<and>
         length (workspaces db2) = length (workspaces db1) \<and>
         getWorkspaceBySlackTeamId tid db2 = Some w2 \<and>
         ws_id w2 = ws_id w1 \<and>
         ws_updated_at w1 = CURRENT_TIMESTAMP env1 \<and>
         ws_updated_at w2 = CURRENT_TIMESTAMP env2 \<and>
         (CURRENT_TIMESTAMP env1 < CURRENT_TIMESTAMP env2 \<longrightarrow> ws_updated_at w1 < ws_updated_at w2) \<and>
         slack_team_name w2 = name2 \<and>
         notion_workspace_id w2 = COALESCE link2 (notion_workspace_id w1) \<and>
         (link2 = None \<longrightarrow> notion_workspace_id w2 = notion_workspace_id w1)"
proof -
  have w1: "w1 = fst (upsertWorkspace env1 tid name link1 db)"
    and db1: "db1 = snd (upsertWorkspace env1 tid name link1 db)"
    using assms(2) by simp_all
  have w2: "w2 = fst (upsertWorkspace env2 tid name2 link2 db1)"
    and db2: "db2 = snd (upsertWorkspace env2 tid name2 link2 db1)"
    using assms(3) by simp_all
  have stored1: "getWorkspaceBySlackTeamId tid db1 = Some w1"
    unfolding w1 db1 by (rule upsertWorkspace_stored)
  have stored2: "getWorkspaceBySlackTeamId tid db2 = Some w2"
    unfolding w2 db2 by (rule upsertWorkspace_stored)
  have uniq1: "unique_slack_team_id (workspaces db1)"
    unfolding db1 using assms(1) by (rule upsertWorkspace_unique)
  then have uniq2: "distinct (map slack_team_id (workspaces db2))"
    unfolding db2 using upsertWorkspace_unique by (simp add: unique_slack_team_id_def)
  have "tid \<in> set (map slack_team_id (workspaces db2))"
    unfolding db2 by (simp add: upsertWorkspace_keys)
  with uniq2 have one: "length (filter (\<lambda>r. slack_team_id r = tid) (workspaces db2)) = 1"
    by (rule distinct_key_once)
  have row: "w2 = w1\<lparr>slack_team_name := name2,
                      notion_workspace_id := COALESCE link2 (notion_workspace_id w1),
                      ws_updated_at := CURRENT_TIMESTAMP env2\<rparr>"
    unfolding w2 using upsertWorkspace_existing(1) [OF stored1]
    by (simp add: workspace_do_update_def)
  have len: "length (workspaces db2) = length (workspaces db1)"
    unfolding db2 using stored1 by (rule upsertWorkspace_existing(2))
  have t1: "ws_updated_at w1 = CURRENT_TIMESTAMP env1"
    unfolding w1 by (rule upsertWorkspace_updated_at)
  have coalesce: "link2 = None \<longrightarrow> COALESCE link2 (notion_workspace_id w1) = notion_workspace_id w1"
    by (simp add: COALESCE_def)
  from one len stored2 row t1 coalesce show ?thesis by simp
qed

theorem upsertWorkspace_twice_witness:
  "(case upsertWorkspace \<lparr>CURRENT_TIMESTAMP = 100, gen_random_uuid = 7\<rparr>
           ''T1234567890'' ''Acme Corp'' (Some ''notion-workspace-1'')
           \<lparr>workspaces = [], minno_sessions = []\<rparr> of
      (w1, db1) \<Rightarrow>
        (case upsertWorkspace \<lparr>CURRENT_TIMESTAMP = 250, gen_random_uuid = 8\<rparr>
                ''T1234567890'' ''Acme Corp'' None db1 of
           (w2, db2) \<Rightarrow>
             length (filter (\<lambda>r. slack_team_id r = ''T1234567890'') (workspaces db2)) = 1 \<and>
             ws_updated_at w1 < ws_updated_at w2 \<and>
             slack_team_name w2 = ''Acme Corp'' \<and>
             notion_workspace_id w2 = Some ''notion-workspace-1''))"
proof -
  let ?db = "\<lparr>workspaces = [], minno_sessions = []\<rparr>"
  let ?env1 = "\<lparr>CURRENT_TIMESTAMP = 100, gen_random_uuid = 7\<rparr>"
  let ?env2 = "\<lparr>CURRENT_TIMESTAMP = 250, gen_random_uuid = 8\<rparr>"
  let ?w1 = "\<lparr>ws_id = 7, slack_team_id = ''T1234567890'', slack_team_name = ''Acme Corp'',
       notion_workspace_id = Some ''notion-workspace-1'',
       ws_created_at = 100, ws_updated_at = 100\<rparr>"
  let ?w2 = "\<lparr>ws_id = 7, slack_team_id = ''T1234567890'', slack_team_name = ''Acme Corp'',
       notion_workspace_id = Some ''notion-workspace-1'',
       ws_created_at = 100, ws_updated_at = 250\<rparr>"
  have u: "unique_slack_team_id (workspaces ?db)"
    by (simp add: unique_slack_team_id_def)
  have first: "upsertWorkspace ?env1 ''T1234567890'' ''Acme Corp'' (Some ''notion-workspace-1'') ?db
                 = (?w1, \<lparr>workspaces = [?w1], minno_sessions = []\<rparr>)"
    by (simp add: upsertWorkspace_def workspace_values_def)
  have second: "upsertWorkspace ?env2 ''T1234567890'' ''Acme Corp'' None
                  \<lparr>workspaces = [?w1], minno_sessions = []\<rparr>
                 = (?w2, \<lparr>workspaces = [?w2], minno_sessions = []\<rparr>)"
    by (simp add: upsertWorkspace_def workspace_do_update_def COALESCE_def)
  show ?thesis
    using upsertWorkspace_twice [OF u first second] first second
    by simp
qed

subsection \<open>Sessions\<close>

lemma session_key_kept [simp]:
  "slack_channel_id (session_do_update env p4 p5 p6 p7 r) = slack_channel_id r"
  "slack_thread_ts (session_do_update env p4 p5 p6 p7 r) = slack_thread_ts r"
  "slack_channel_id (session_values env wid ch th p4 p5 p6 p7) = ch"
  "slack_thread_ts (session_values env wid ch th p4 p5 p6 p7) = th"
  by (simp_all add: session_do_update_def session_values_def)

lemma upsertMinnoSession_existing:
  assumes "getMinnoSessionByThread ch th db = Some old"
  shows "upsertMinnoSession env wid ch th data db =
     Inr (session_do_update env (Option.bind data notionProjectId)
            (Option.bind data notionTaskId) (Option.bind data data_context)
            (Some (status_or_active (Option.bind data data_status))) old,
          db\<lparr>minno_sessions :=
               snd (insert_on_conflict
                      (\<lambda>r. slack_channel_id r = ch \<and> slack_thread_ts r = th)
                      (session_do_update env (Option.bind data notionProjectId)
                         (Option.bind data notionTaskId) (Option.bind data data_context)
                         (Some (status_or_active (Option.bind data data_status))))
                      (session_values env wid ch th (Option.bind data notionProjectId)
                         (Option.bind data notionTaskId) (Option.bind data data_context)
                         (Some (status_or_active (Option.bind data data_status))))
                      (minno_sessions db))\<rparr>)"
proof -
  have f: "find (\<lambda>r. slack_channel_id r = ch \<and> slack_thread_ts r = th) (minno_sessions db)
             = Some old"
    using assms by (simp add: getMinnoSessionByThread_def)
  then have "list_ex (\<lambda>r. slack_channel_id r = ch \<and> slack_thread_ts r = th) (minno_sessions db)"
    by (rule find_Some_list_ex)
  then show ?thesis
    using insert_on_conflict_found [OF f]
    by (simp add: upsertMinnoSession_def Let_def split_beta)
qed

lemma upsertMinnoSession_existing_row:
  assumes "getMinnoSessionByThread ch th db = Some old"
      and "upsertMinnoSession env wid ch th data db = Inr (written, db')"
  shows "written = session_do_update env (Option.bind data notionProjectId)
            (Option.bind data notionTaskId) (Option.bind data data_context)
            (Some (status_or_active (Option.bind data data_status))) old"
    and "length (minno_sessions db') = length (minno_sessions db)"
    and "getMinnoSessionByThread ch th db' = Some written"
    and "map (\<lambda>r. (slack_channel_id r, slack_thread_ts r)) (minno_sessions db') =
         map (\<lambda>r. (slack_channel_id r, slack_thread_ts r)) (minno_sessions db)"
    and "workspaces db' = workspaces db"
proof -
  let ?P = "\<lambda>r. slack_channel_id r = ch \<and> slack_thread_ts r = th"
  let ?U = "session_do_update env (Option.bind data notionProjectId)
            (Option.bind data notionTaskId) (Option.bind data data_context)
            (Some (status_or_active (Option.bind data data_status)))"
  let ?N = "session_values env wid ch th (Option.bind data notionProjectId)
            (Option.bind data notionTaskId) (Option.bind data data_context)
            (Some (status_or_active (Option.bind data data_status)))"
  let ?X = "insert_on_conflict ?P ?U ?N (minno_sessions db)"
  have f: "find ?P (minno_sessions db) = Some old"
    using assms(1) by (simp add: getMinnoSessionByThread_def)
  have w: "written = ?U old" and d: "db' = db\<lparr>minno_sessions := snd ?X\<rparr>"
    using assms(2) unfolding upsertMinnoSession_existing [OF assms(1)] by simp_all
  have fx: "fst ?X = ?U old"
    using f by (rule insert_on_conflict_found)
  show "written = ?U old" by (rule w)
  show "length (minno_sessions db') = length (minno_sessions db)"
    unfolding d using insert_on_conflict_length [OF f] by simp
  have "find ?P (snd ?X) = Some (fst ?X)"
    by (rule insert_on_conflict_stored [where conflicts = ?P]) simp_all
  then show "getMinnoSessionByThread ch th db' = Some written"
    unfolding d w getMinnoSessionByThread_def using fx by simp
  have k: "(ch, th) \<in> set (map (\<lambda>r. (slack_channel_id r, slack_thread_ts r)) (minno_sessions db))"
    using f by (force simp: find_Some_iff)
  have "map (\<lambda>r. (slack_channel_id r, slack_thread_ts r))
          (snd (insert_on_conflict (\<lambda>r. (slack_channel_id r, slack_thread_ts r) = (ch, th))
                  ?U ?N (minno_sessions db))) =
        (if (ch, th) \<in> set (map (\<lambda>r. (slack_channel_id r, slack_thread_ts r)) (minno_sessions db))
         then map (\<lambda>r. (slack_channel_id r, slack_thread_ts r)) (minno_sessions db)
         else map (\<lambda>r. (slack_channel_id r, slack_thread_ts r)) (minno_sessions db) @ [(ch, th)])"
    by (rule insert_on_conflict_keys
          [where key = "\<lambda>r. (slack_channel_id r, slack_thread_ts r)" and k = "(ch, th)"])
       simp_all
  with k show "map (\<lambda>r. (slack_channel_id r, slack_thread_ts r)) (minno_sessions db') =
         map (\<lambda>r. (slack_channel_id r, slack_thread_ts r)) (minno_sessions db)"
    unfolding d by simp
  show "workspaces db' = workspaces db"
    unfolding d by simp
qed

lemma upsertMinnoSession_existing_status:
  assumes "getMinnoSessionByThread ch th db = Some old"
      and "upsertMinnoSession env wid ch th data db = Inr (written, db')"
  shows "status written = Some (status_or_active (Option.bind data data_status))"
  using upsertMinnoSession_existing_row(1) [OF assms]
  by (simp add: COALESCE_def session_do_update_def)

text \<open>
  Claim C6. When a session exists for the channel and thread, \<open>upsertMinnoSession\<close>
  for that key succeeds and writes into the existing row: the table keeps its length and
  holds exactly one row for the key, the row keeps its \<open>id\<close>, and its context,
  Notion project id and Notion task id are the stored ones whenever the call does not
  supply them.
\<close>

theorem upsertMinnoSession_existing_merges:
  assumes "unique_slack_thread (minno_sessions db)"
      and "getMinnoSessionByThread ch th db = Some old"
  shows "\<exists>written db'.
           upsertMinnoSession env wid ch th data db = Inr (written, db') \<and>
           length (minno_sessions db') = length (minno_sessions db) \<and>
           length (filter (\<lambda>r. slack_channel_id r = ch \<and> slack_thread_ts r = th)
                     (minno_sessions db')) = 1 \<and>
           getMinnoSessionByThread ch th db' = Some written \<and>
           s_id written = s_id old \<and>
           (Option.bind data data_context = None \<longrightarrow> s_context written = s_context old) \<and>
           (Option.bind data notionProjectId = None \<longrightarrow>
              notion_project_id written = notion_project_id old) \<and>
           (Option.bind data notionTaskId = None \<longrightarrow>
              notion_task_id written = notion_task_id old)"
proof -
  obtain written db' where run: "upsertMinnoSession env wid ch th data db = Inr (written, db')"
    using upsertMinnoSession_existing [OF assms(2)] by simp
  note facts = upsertMinnoSession_existing_row [OF assms(2) run]
  have "distinct (map (\<lambda>r. (slack_channel_id r, slack_thread_ts r)) (minno_sessions db'))"
    using assms(1) facts(4) by (simp add: unique_slack_thread_def)
  moreover have "(ch, th) \<in> set (map (\<lambda>r. (slack_channel_id r, slack_thread_ts r))
                    (minno_sessions db'))"
    using facts(3) by (force simp: getMinnoSessionByThread_def find_Some_iff)
  ultimately have one: "length (filter (\<lambda>r. (slack_channel_id r, slack_thread_ts r) = (ch, th))
                     (minno_sessions db')) = 1"
    by (rule distinct_key_once)
  have "s_id written = s_id old"
    "Option.bind data data_context = None \<longrightarrow> s_context written = s_context old"
    "Option.bind data notionProjectId = None \<longrightarrow>
       notion_project_id written = notion_project_id old"
    "Option.bind data notionTaskId = None \<longrightarrow> notion_task_id written = notion_task_id old"
    using facts(1) by (simp_all add: COALESCE_def session_do_update_def)
  with run facts(2,3) one show ?thesis
    by simp
qed

theorem upsertMinnoSession_existing_merges_witness:
  "\<exists>written db'.
     upsertMinnoSession \<lparr>CURRENT_TIMESTAMP = 250, gen_random_uuid = 9\<rparr> 7
        ''C1234567890'' ''1700000000.000100'' None
        \<lparr>workspaces = [],
         minno_sessions =
           [\<lparr>s_id = 3, workspace_id = 7, slack_channel_id = ''C1234567890'',
             slack_thread_ts = ''1700000000.000100'', notion_project_id = Some ''proj-1'',
             notion_task_id = Some ''task-1'',
             s_context = Some (JObj [(''lastMessageId'', JStr ''m1'')]),
             status = Some Active, s_created_at = 100, s_updated_at = 100\<rparr>]\<rparr>
       = Inr (written, db') \<and>
     length (minno_sessions db') = 1 \<and>
     s_context written = Some (JObj [(''lastMessageId'', JStr ''m1'')]) \<and>
     notion_project_id written = Some ''proj-1'' \<and>
     notion_task_id written = Some ''task-1''"
proof -
  let ?old = "\<lparr>s_id = 3, workspace_id = 7, slack_channel_id = ''C1234567890'',
             slack_thread_ts = ''1700000000.000100'', notion_project_id = Some ''proj-1'',
             notion_task_id = Some ''task-1'',
             s_context = Some (JObj [(''lastMessageId'', JStr ''m1'')]),
             status = Some Active, s_created_at = 100, s_updated_at = 100\<rparr>"
  let ?db = "\<lparr>workspaces = [], minno_sessions = [?old]\<rparr>"
  have u: "unique_slack_thread (minno_sessions ?db)"
    by (simp add: unique_slack_thread_def)
  have g: "getMinnoSessionByThread ''C1234567890'' ''1700000000.000100'' ?db = Some ?old"
    by (simp add: getMinnoSessionByThread_def)
  show ?thesis
    using upsertMinnoSession_existing_merges
            [OF u g, of "\<lparr>CURRENT_TIMESTAMP = 250, gen_random_uuid = 9\<rparr>" 7 None]
    by auto
qed

text \<open>
  Claim C7. The claim is that an upsert for an existing channel and thread which gives
  no status leaves the stored status as it is. The seventh parameter of the statement
  is \<open>data?.status || 'active'\<close>, which is never \<open>NULL\<close>, so
  \<open>COALESCE($7, minno_sessions.status)\<close> is always the parameter
  (\<open>upsertMinnoSession_existing_status\<close>). Here a session stored as \<open>completed\<close>
  is upserted without data: the row that comes back, and the row in the table, are
  \<open>active\<close>.
\<close>

theorem upsertMinnoSession_absent_status_sets_active:
  "upsertMinnoSession \<lparr>CURRENT_TIMESTAMP = 250, gen_random_uuid = 9\<rparr> 7
      ''C1234567890'' ''1700000000.000100'' None
      \<lparr>workspaces =
         [\<lparr>ws_id = 7, slack_team_id = ''T1234567890'', slack_team_name = ''Acme Corp'',
           notion_workspace_id = None, ws_created_at = 50, ws_updated_at = 50\<rparr>],
       minno_sessions =
         [\<lparr>s_id = 3, workspace_id = 7, slack_channel_id = ''C1234567890'',
           slack_thread_ts = ''1700000000.000100'', notion_project_id = None,
           notion_task_id = None, s_context = None,
           status = Some Completed, s_created_at = 100, s_updated_at = 180\<rparr>]\<rparr>
   = Inr (\<lparr>s_id = 3, workspace_id = 7, slack_channel_id = ''C1234567890'',
           slack_thread_ts = ''1700000000.000100'', notion_project_id = None,
           notion_task_id = None, s_context = None,
           status = Some Active, s_created_at = 100, s_updated_at = 250\<rparr>,
          \<lparr>workspaces =
             [\<lparr>ws_id = 7, slack_team_id = ''T1234567890'', slack_team_name = ''Acme Corp'',
               notion_workspace_id = None, ws_created_at = 50, ws_updated_at = 50\<rparr>],
           minno_sessions =
             [\<lparr>s_id = 3, workspace_id = 7, slack_channel_id = ''C1234567890'',
               slack_thread_ts = ''1700000000.000100'', notion_project_id = None,
               notion_task_id = None, s_context = None,
               status = Some Active, s_created_at = 100, s_updated_at = 250\<rparr>]\<rparr>)"
  by (simp add: upsertMinnoSession_def session_do_update_def COALESCE_def status_or_active_def
        Let_def)

end
